theory Spec2Isabelle
  imports Main
begin

section \<open>Values, exceptions and the outside world\<close>

text \<open>
  The pipeline of \<^verbatim>\<open>anime.py\<close> handles decoded JSON, text and parsed markup. A decoded JSON
  value is one of Python's \<^verbatim>\<open>None\<close>, \<^verbatim>\<open>bool\<close>, \<^verbatim>\<open>int\<close>, \<^verbatim>\<open>float\<close>, \<^verbatim>\<open>str\<close>, \<^verbatim>\<open>list\<close> and
  \<^verbatim>\<open>dict\<close>. A finite float is the exact number \<open>m * 2 ^ e\<close> and is written \<open>JFloat m e\<close>; the
  program only tests floats for truth and passes them through. A dict is the list of its
  items in insertion order; a decoded dict has no key twice.

  Strings are lists of 8-bit characters and stand for ASCII text: on ASCII text the string
  helpers below agree with Python's \<^verbatim>\<open>str\<close> methods.
\<close>

datatype json =
    JNull
  | JBool bool
  | JInt int
  | JFloat int int
  | JStr string
  | JArr "json list"
  | JObj "(string \<times> json) list"

text \<open>The exceptions that the program can raise and does not catch.\<close>

datatype error =
    KeyError
  | TypeError
  | AttributeError
  | ValueError
  | FileNotFoundError
  | FileExistsError
  | IsADirectoryError

text \<open>Sequencing of steps that may raise: the first exception ends the computation.\<close>

definition rbind :: "error + 'a \<Rightarrow> ('a \<Rightarrow> error + 'b) \<Rightarrow> error + 'b" where
  "rbind m f = (case m of Inl e \<Rightarrow> Inl e | Inr x \<Rightarrow> f x)"

text \<open>
  What \<^verbatim>\<open>requests.get\<close> gives: it raises a \<^verbatim>\<open>RequestException\<close>, or it returns a response
  with a status code and a body.
\<close>

datatype response = ConnError | Response nat string

text \<open>
  An element selected from parsed markup, with the three things the program reads from it:
  its attributes, the attributes of its first \<^verbatim>\<open>img\<close> descendant (if any) and the text of
  its first descendant of class \<^verbatim>\<open>ep-name\<close> (if any).
\<close>

record tag =
  attrs :: "(string \<times> string) list"
  img :: "(string \<times> string) list option"
  ep_name :: "string option"

text \<open>
  The collaborators outside the repository. \<open>http_get env n url\<close> is the outcome of the
  \<open>n\<close>-th call of \<^verbatim>\<open>requests.get\<close> of the run (counting from 0) when it asks for \<open>url\<close>, so
  every behaviour of the network, also one that changes from attempt to attempt, is one
  \<open>env\<close>. \<open>json_loads\<close> decodes JSON text (\<open>None\<close>: the text is not JSON), \<open>json_dump\<close> is
  \<^verbatim>\<open>json.dump(_, indent=2, ensure_ascii=False)\<close>, the two selectors are
  \<^verbatim>\<open>BeautifulSoup(html, "html.parser").select(...)\<close> for the selectors
  \<^verbatim>\<open>a.film-poster-ahref\<close> and \<^verbatim>\<open>a.ssl-item.ep-item\<close>, and \<open>str_of\<close> is Python's \<^verbatim>\<open>str\<close> of a
  decoded value, as an f-string formats it.
\<close>

record env =
  http_get :: "nat \<Rightarrow> string \<Rightarrow> response"
  json_loads :: "string \<Rightarrow> json option"
  json_dump :: "json \<Rightarrow> string"
  select_posters :: "string \<Rightarrow> tag list"
  select_episodes :: "string \<Rightarrow> tag list"
  str_of :: "json \<Rightarrow> string"

text \<open>
  The state the program changes: the requests sent so far (in order), the total time slept,
  the directories made and the content of the files written. Console output is not
  modelled.
\<close>

record world =
  requests_log :: "string list"
  slept :: nat
  dirs :: "string set"
  files :: "string \<rightharpoonup> string"

text \<open>
  What a step that changes the world gives: its result or the exception it raises, and the
  world it has reached, so that what was written before an exception is still there.
  \<open>sbind\<close> runs the next step in that world unless an exception was raised.
\<close>

type_synonym 'a outcome = "(error + 'a) \<times> world"

definition sbind :: "'a outcome \<Rightarrow> ('a \<Rightarrow> world \<Rightarrow> 'b outcome) \<Rightarrow> 'b outcome" where
  "sbind m f = (case m of (Inl e, w) \<Rightarrow> (Inl e, w) | (Inr x, w) \<Rightarrow> f x w)"

definition send :: "env \<Rightarrow> string \<Rightarrow> world \<Rightarrow> response \<times> world" where
  "send env url w =
     (http_get env (length (requests_log w)) url,
      w\<lparr>requests_log := requests_log w @ [url]\<rparr>)"

definition sleep :: "nat \<Rightarrow> world \<Rightarrow> world" where
  "sleep d w = w\<lparr>slept := slept w + d\<rparr>"

subsection \<open>Configuration\<close>

definition OUTPUT_DIR :: string where
  "OUTPUT_DIR = ''anime_data''"

definition PROXY :: string where
  "PROXY = ''https://tv-stream-proxy.onrender.com/proxy?url=''"

definition HIANIME_HOST :: string where
  "HIANIME_HOST = ''https://hianimez.is''"

definition JIKAN_BASE :: string where
  "JIKAN_BASE = ''https://api.jikan.moe/v4''"

section \<open>Python's built-in operations\<close>

text \<open>Truth value of a decoded JSON value, as \<^verbatim>\<open>not\<close>, \<^verbatim>\<open>or\<close> and \<^verbatim>\<open>if\<close> see it.\<close>

fun truthy :: "json \<Rightarrow> bool" where
  "truthy JNull = False"
| "truthy (JBool b) = b"
| "truthy (JInt i) = (i \<noteq> 0)"
| "truthy (JFloat m e) = (m \<noteq> 0)"
| "truthy (JStr s) = (s \<noteq> [])"
| "truthy (JArr xs) = (xs \<noteq> [])"
| "truthy (JObj kvs) = (kvs \<noteq> [])"

text \<open>\<^verbatim>\<open>x[k]\<close> for a string key \<open>k\<close>: only a dict has string keys.\<close>

fun subscript :: "json \<Rightarrow> string \<Rightarrow> error + json" where
  "subscript (JObj kvs) k = (case map_of kvs k of None \<Rightarrow> Inl KeyError | Some v \<Rightarrow> Inr v)"
| "subscript _ k = Inl TypeError"

text \<open>\<^verbatim>\<open>x.get(k)\<close> and \<^verbatim>\<open>x.get(k, d)\<close>: only a dict has the method.\<close>

fun get_default :: "json \<Rightarrow> string \<Rightarrow> json \<Rightarrow> error + json" where
  "get_default (JObj kvs) k d = (case map_of kvs k of None \<Rightarrow> Inr d | Some v \<Rightarrow> Inr v)"
| "get_default _ k d = Inl AttributeError"

definition get :: "json \<Rightarrow> string \<Rightarrow> error + json" where
  "get x k = get_default x k JNull"

text \<open>\<^verbatim>\<open>for a in x\<close>: the elements of a list, the characters of a string, the keys of a dict.\<close>

fun iterate :: "json \<Rightarrow> error + json list" where
  "iterate (JArr xs) = Inr xs"
| "iterate (JStr s) = Inr (map (\<lambda>c. JStr [c]) s)"
| "iterate (JObj kvs) = Inr (map (\<lambda>kv. JStr (fst kv)) kvs)"
| "iterate _ = Inl TypeError"



subsection \<open>Strings\<close>

definition is_space :: "char \<Rightarrow> bool" where
  "is_space c = (let n = (of_char c :: nat) in (9 \<le> n \<and> n \<le> 13) \<or> (28 \<le> n \<and> n \<le> 32))"

definition is_digit :: "char \<Rightarrow> bool" where
  "is_digit c = (let n = (of_char c :: nat) in 48 \<le> n \<and> n \<le> 57)"

definition is_upper :: "char \<Rightarrow> bool" where
  "is_upper c = (let n = (of_char c :: nat) in 65 \<le> n \<and> n \<le> 90)"

definition is_lower :: "char \<Rightarrow> bool" where
  "is_lower c = (let n = (of_char c :: nat) in 97 \<le> n \<and> n \<le> 122)"

definition strip :: "string \<Rightarrow> string" where
  "strip s = rev (dropWhile is_space (rev (dropWhile is_space s)))"

definition lower_char :: "char \<Rightarrow> char" where
  "lower_char c =
     (if is_upper c then ''abcdefghijklmnopqrstuvwxyz'' ! ((of_char c :: nat) - 65) else c)"

definition lower :: "string \<Rightarrow> string" where
  "lower s = map lower_char s"

text \<open>\<^verbatim>\<open>s.replace(' ', '_')\<close>\<close>

definition replace_spaces :: "string \<Rightarrow> string" where
  "replace_spaces s = map (\<lambda>c. if c = CHR '' '' then CHR ''_'' else c) s"

text \<open>\<^verbatim>\<open>str(n)\<close> of an integer, as an f-string formats it.\<close>

fun str_nat :: "nat \<Rightarrow> string" where
  "str_nat n =
     (if n < 10 then [''0123456789'' ! n]
      else str_nat (n div 10) @ [''0123456789'' ! (n mod 10)])"

definition str_int :: "int \<Rightarrow> string" where
  "str_int i = (if i < 0 then CHR ''-'' # str_nat (nat (- i)) else str_nat (nat i))"

text \<open>An optional string in an f-string: \<^verbatim>\<open>None\<close> is formatted as the text \<^verbatim>\<open>None\<close>.\<close>

definition str_opt :: "string option \<Rightarrow> string" where
  "str_opt x = (case x of None \<Rightarrow> ''None'' | Some s \<Rightarrow> s)"

text \<open>
  \<^verbatim>\<open>requests.utils.quote(url, safe="")\<close>: every byte except letters, digits and \<^verbatim>\<open>_.-~\<close> is
  written as \<^verbatim>\<open>%XX\<close>.
\<close>

definition hex_digit :: "nat \<Rightarrow> char" where
  "hex_digit n = ''0123456789ABCDEF'' ! (n mod 16)"

definition quote_char :: "char \<Rightarrow> string" where
  "quote_char c =
     (if is_upper c \<or> is_lower c \<or> is_digit c \<or> c \<in> set ''_.-~'' then [c]
      else [CHR ''%'', hex_digit ((of_char c :: nat) div 16), hex_digit (of_char c)])"

definition quote :: "string \<Rightarrow> string" where
  "quote s = concat (map quote_char s)"

section \<open>Proxied Fetcher\<close>

text \<open>
  \<^verbatim>\<open>res.raise_for_status()\<close> raises an \<^verbatim>\<open>HTTPError\<close>, which is a \<^verbatim>\<open>RequestException\<close>, for
  the status codes 400 to 599.
\<close>

definition raise_for_status :: "nat \<Rightarrow> bool" where
  "raise_for_status st = (400 \<le> st \<and> st < 600)"

text \<open>
  One attempt of \<^verbatim>\<open>proxy_get\<close> fails when the request raises or the status is an error
  status.
\<close>

fun failed :: "response \<Rightarrow> bool" where
  "failed ConnError = True"
| "failed (Response st txt) = raise_for_status st"

text \<open>
  \<^verbatim>\<open>proxy_get(url, retries, delay)\<close>: the loop over \<^verbatim>\<open>range(1, retries + 1)\<close> is a recursion on
  the attempts that are left. \<open>None\<close> is the value Python's \<^verbatim>\<open>None\<close>.
\<close>

fun proxy_attempts :: "env \<Rightarrow> string \<Rightarrow> nat \<Rightarrow> nat \<Rightarrow> world \<Rightarrow> string option \<times> world" where
  "proxy_attempts env url 0 delay w = (None, w)"
| "proxy_attempts env url (Suc k) delay w =
     (case send env (PROXY @ quote url) w of
        (Response st txt, w1) \<Rightarrow>
          if raise_for_status st then proxy_attempts env url k delay (sleep delay w1)
          else (Some txt, w1)
      | (ConnError, w1) \<Rightarrow> proxy_attempts env url k delay (sleep delay w1))"

definition proxy_get :: "env \<Rightarrow> string \<Rightarrow> nat \<Rightarrow> nat \<Rightarrow> world \<Rightarrow> string option \<times> world" where
  "proxy_get env url retries delay w = proxy_attempts env url retries delay w"

text \<open>The call with the default arguments \<^verbatim>\<open>retries=3, delay=2\<close>.\<close>

definition proxy_get_default :: "env \<Rightarrow> string \<Rightarrow> world \<Rightarrow> string option \<times> world" where
  "proxy_get_default env url w = proxy_get env url 3 2 w"

section \<open>Catalog Enumerator\<close>

text \<open>
  \<^verbatim>\<open>requests.get(url).json()\<close>: \<open>None\<close> when the request or the decoding raises. The status
  code is not looked at.
\<close>

definition get_json :: "env \<Rightarrow> string \<Rightarrow> world \<Rightarrow> json option \<times> world" where
  "get_json env url w =
     (case send env url w of
        (ConnError, w1) \<Rightarrow> (None, w1)
      | (Response st txt, w1) \<Rightarrow> (json_loads env txt, w1))"








subsection \<open>A catalog that serves its pages\<close>






section \<open>Detail Resolver\<close>

text \<open>The comprehension \<^verbatim>\<open>[s["name"] for s in xs]\<close>.\<close>

fun names :: "json list \<Rightarrow> error + json list" where
  "names [] = Inr []"
| "names (s # ss) =
     rbind (subscript s ''name'') (\<lambda>n.
     rbind (names ss) (\<lambda>ns. Inr (n # ns)))"

text \<open>\<^verbatim>\<open>[s["name"] for s in details.get(k, [])]\<close>\<close>

definition names_of :: "json \<Rightarrow> string \<Rightarrow> error + json" where
  "names_of details k =
     rbind (get_default details k (JArr [])) (\<lambda>v.
     rbind (iterate v) (\<lambda>xs.
     rbind (names xs) (\<lambda>ns. Inr (JArr ns))))"

text \<open>\<^verbatim>\<open>details.get("title_english") or details["title"]\<close>\<close>

definition canonical_title :: "json \<Rightarrow> error + json" where
  "canonical_title details =
     rbind (get details ''title_english'') (\<lambda>te.
     if truthy te then Inr te else subscript details ''title'')"

text \<open>
  The dict that \<^verbatim>\<open>fetch_jikan_details\<close> returns. Its items are evaluated in the order of the
  source, outside the \<^verbatim>\<open>try\<close> block.
\<close>

definition project :: "int \<Rightarrow> json \<Rightarrow> error + json" where
  "project mal_id details =
     rbind (canonical_title details) (\<lambda>title.
     rbind (get details ''synopsis'') (\<lambda>synopsis.
     rbind (get details ''type'') (\<lambda>type.
     rbind (get details ''episodes'') (\<lambda>episodes.
     rbind (get details ''status'') (\<lambda>status.
     rbind (get details ''rating'') (\<lambda>rating.
     rbind (get details ''score'') (\<lambda>score.
     rbind (get details ''rank'') (\<lambda>rank.
     rbind (get details ''popularity'') (\<lambda>popularity.
     rbind (get details ''members'') (\<lambda>members.
     rbind (get details ''favorites'') (\<lambda>favorites.
     rbind (get details ''duration'') (\<lambda>duration.
     rbind (get details ''season'') (\<lambda>season.
     rbind (get details ''year'') (\<lambda>year.
     rbind (names_of details ''studios'') (\<lambda>studios.
     rbind (names_of details ''genres'') (\<lambda>genres.
     rbind (names_of details ''themes'') (\<lambda>themes.
     rbind (names_of details ''demographics'') (\<lambda>demographics.
     rbind (rbind (subscript details ''images'') (\<lambda>i. subscript i ''jpg'')) (\<lambda>images.
     Inr (JObj
       [(''mal_id'', JInt mal_id),
        (''title'', title),
        (''synopsis'', synopsis),
        (''type'', type),
        (''episodes'', episodes),
        (''status'', status),
        (''rating'', rating),
        (''score'', score),
        (''rank'', rank),
        (''popularity'', popularity),
        (''members'', members),
        (''favorites'', favorites),
        (''duration'', duration),
        (''season'', season),
        (''year'', year),
        (''studios'', studios),
        (''genres'', genres),
        (''themes'', themes),
        (''demographics'', demographics),
        (''images'', images)]))))))))))))))))))))"

definition details_url :: "int \<Rightarrow> string" where
  "details_url mal_id = JIKAN_BASE @ ''/anime/'' @ str_int mal_id @ ''/full''"

text \<open>
  \<^verbatim>\<open>fetch_jikan_details(mal_id)\<close>. The \<^verbatim>\<open>try\<close> block holds the request, the decoding and the
  subscript \<^verbatim>\<open>["data"]\<close>: whatever they raise gives \<^verbatim>\<open>None\<close>. The result \<open>Inr None\<close> is the
  return of \<^verbatim>\<open>None\<close>, \<open>Inr (Some meta)\<close> the return of the dict, \<open>Inl e\<close> the exception \<open>e\<close>
  leaving the function.
\<close>

definition fetch_jikan_details :: "env \<Rightarrow> int \<Rightarrow> world \<Rightarrow> json option outcome" where
  "fetch_jikan_details env mal_id w =
     (case get_json env (details_url mal_id) w of
        (None, w1) \<Rightarrow> (Inr None, w1)
      | (Some res, w1) \<Rightarrow>
          (case subscript res ''data'' of
             Inl e \<Rightarrow> (Inr None, w1)
           | Inr details \<Rightarrow> (rbind (project mal_id details) (\<lambda>meta. Inr (Some meta)), w1)))"

section \<open>Cross-Reference Matcher\<close>

record hianime_match =
  match_id :: "string option"
  match_title :: string
  match_poster :: "string option"

text \<open>\<^verbatim>\<open>a.get("title") or ""\<close>\<close>

definition title_or_empty :: "tag \<Rightarrow> string" where
  "title_or_empty a = (case map_of (attrs a) ''title'' of None \<Rightarrow> [] | Some s \<Rightarrow> s)"

text \<open>
  The dict returned for the anchor that matches: \<^verbatim>\<open>a.get("title").strip()\<close> raises when
  the anchor has no title, \<^verbatim>\<open>a.select_one("img")["data-src"]\<close> when the image has no such
  attribute.
\<close>

definition match_of :: "tag \<Rightarrow> error + hianime_match" where
  "match_of a =
     rbind (case map_of (attrs a) ''title'' of
              None \<Rightarrow> Inl AttributeError
            | Some s \<Rightarrow> Inr (strip s)) (\<lambda>t.
     rbind (case img a of
              None \<Rightarrow> Inr None
            | Some i \<Rightarrow> (case map_of i ''data-src'' of
                           None \<Rightarrow> Inl KeyError
                         | Some p \<Rightarrow> Inr (Some p))) (\<lambda>p.
     Inr \<lparr>match_id = map_of (attrs a) ''data-id'', match_title = t, match_poster = p\<rparr>))"

text \<open>The loop \<^verbatim>\<open>for a in anchors\<close> with its early return.\<close>

fun first_match :: "string \<Rightarrow> tag list \<Rightarrow> error + hianime_match option" where
  "first_match q [] = Inr None"
| "first_match q (a # as) =
     (if lower (strip (title_or_empty a)) = q
      then rbind (match_of a) (\<lambda>m. Inr (Some m))
      else first_match q as)"

definition search_url :: "string \<Rightarrow> string" where
  "search_url query = HIANIME_HOST @ ''/search?keyword='' @ query"

text \<open>\<^verbatim>\<open>resolve_hianime_id(query)\<close>; \<^verbatim>\<open>if not html\<close> holds for \<^verbatim>\<open>None\<close> and for the empty text.\<close>

definition resolve_hianime_id :: "env \<Rightarrow> string \<Rightarrow> world \<Rightarrow> hianime_match option outcome" where
  "resolve_hianime_id env query w =
     (case proxy_get_default env (search_url query) w of
        (None, w1) \<Rightarrow> (Inr None, w1)
      | (Some html, w1) \<Rightarrow>
          if html = [] then (Inr None, w1)
          else (first_match (lower (strip query)) (select_posters env html), w1))"

section \<open>Episode Lister\<close>

text \<open>
  \<^verbatim>\<open>int(s)\<close> for a string: white space around the number is dropped, one sign may come
  first, and the digits may be grouped by single underscores. Anything else raises
  \<^verbatim>\<open>ValueError\<close>.
\<close>

definition digit_value :: "char \<Rightarrow> nat" where
  "digit_value c = (of_char c :: nat) - 48"

fun digits_value :: "nat \<Rightarrow> string \<Rightarrow> nat option" where
  "digits_value acc [] = Some acc"
| "digits_value acc [c] = (if is_digit c then Some (10 * acc + digit_value c) else None)"
| "digits_value acc (c # d # cs) =
     (if is_digit c then digits_value (10 * acc + digit_value c) (d # cs)
      else if c = CHR ''_'' \<and> is_digit d then digits_value acc (d # cs)
      else None)"

definition unsigned_value :: "string \<Rightarrow> nat option" where
  "unsigned_value s =
     (case s of [] \<Rightarrow> None | c # cs \<Rightarrow> if is_digit c then digits_value 0 s else None)"

definition int_of_str :: "string \<Rightarrow> error + int" where
  "int_of_str s =
     (let t = strip s;
          neg = (t \<noteq> [] \<and> hd t = CHR ''-'');
          u = (if t \<noteq> [] \<and> (hd t = CHR ''-'' \<or> hd t = CHR ''+'') then tl t else t)
      in case unsigned_value u of
           None \<Rightarrow> Inl ValueError
         | Some n \<Rightarrow> Inr (if neg then - int n else int n))"

record episode =
  episodeId :: "string option"
  number :: int
  title :: string
  streaming :: string

text \<open>\<^verbatim>\<open>int(a.get("data-number") or 0)\<close>: \<^verbatim>\<open>int(0)\<close> when the attribute is missing or empty.\<close>

definition number_of :: "tag \<Rightarrow> error + int" where
  "number_of a =
     (case map_of (attrs a) ''data-number'' of
        None \<Rightarrow> Inr 0
      | Some s \<Rightarrow> if s = [] then Inr 0 else int_of_str s)"

definition episode_of :: "tag \<Rightarrow> error + episode" where
  "episode_of a =
     rbind (number_of a) (\<lambda>n.
     Inr \<lparr>episodeId = map_of (attrs a) ''data-id'',
          number = n,
          title = strip (case ep_name a of None \<Rightarrow> [] | Some t \<Rightarrow> t),
          streaming = ''https://megaplay.buzz/stream/s-2/''
                        @ str_opt (map_of (attrs a) ''data-id'') @ ''/sub''\<rparr>)"

text \<open>The loop \<^verbatim>\<open>for a in soup.select(...): eps.append(...)\<close>.\<close>

fun episodes_of :: "tag list \<Rightarrow> error + episode list" where
  "episodes_of [] = Inr []"
| "episodes_of (a # as) =
     rbind (episode_of a) (\<lambda>e.
     rbind (episodes_of as) (\<lambda>es. Inr (e # es)))"

definition episode_list_url :: "string option \<Rightarrow> string" where
  "episode_list_url anime_data_id =
     HIANIME_HOST @ ''/ajax/v2/episode/list/'' @ str_opt anime_data_id"

text \<open>
  \<^verbatim>\<open>fetch_episode_list(anime_data_id)\<close>. The argument is \<^verbatim>\<open>info["id"]\<close>, which is \<^verbatim>\<open>None\<close> when
  the anchor has no \<^verbatim>\<open>data-id\<close>. \<^verbatim>\<open>sorted\<close> is stable, as \<open>sort_key\<close> is. The markup in
  \<^verbatim>\<open>data["html"]\<close> is text; the parser is given nothing else here, and the model raises
  \<^verbatim>\<open>TypeError\<close> for a value that is not text.
\<close>

definition fetch_episode_list :: "env \<Rightarrow> string option \<Rightarrow> world \<Rightarrow> episode list outcome" where
  "fetch_episode_list env anime_data_id w =
     (case proxy_get_default env (episode_list_url anime_data_id) w of
        (None, w1) \<Rightarrow> (Inr [], w1)
      | (Some txt, w1) \<Rightarrow>
          if txt = [] then (Inr [], w1)
          else
            (case json_loads env txt of
               None \<Rightarrow> (Inr [], w1)
             | Some data \<Rightarrow>
                 (rbind (get data ''status'') (\<lambda>status.
                  if \<not> truthy status then Inr []
                  else
                    rbind (get data ''html'') (\<lambda>html.
                    if \<not> truthy html then Inr []
                    else
                      (case html of
                         JStr markup \<Rightarrow>
                           rbind (episodes_of (select_episodes env markup)) (\<lambda>eps.
                           Inr (sort_key number eps))
                       | _ \<Rightarrow> Inl TypeError))),
                  w1)))"

section \<open>Persistence Writer\<close>

text \<open>\<^verbatim>\<open>os.path.join(a, b)\<close> on POSIX.\<close>

definition path_join :: "string \<Rightarrow> string \<Rightarrow> string" where
  "path_join a b =
     (if b \<noteq> [] \<and> hd b = CHR ''/'' then b
      else if a = [] \<or> last a = CHR ''/'' then a @ b
      else a @ ''/'' @ b)"

text \<open>
  The file system is modelled by the set of directories made and the content of the files
  written, with paths compared as texts. \<^verbatim>\<open>os.makedirs(folder, exist_ok=True)\<close> raises for
  the empty path and for a path that is a file; \<^verbatim>\<open>open(path, "w")\<close> raises for a path that is
  a directory, and writing replaces the whole content. Other failures of the operating
  system are not modelled.
\<close>

definition makedirs :: "string \<Rightarrow> world \<Rightarrow> unit outcome" where
  "makedirs folder w =
     (if folder = [] then (Inl FileNotFoundError, w)
      else if files w folder \<noteq> None then (Inl FileExistsError, w)
      else (Inr (), w\<lparr>dirs := insert folder (dirs w)\<rparr>))"

definition write_file :: "string \<Rightarrow> string \<Rightarrow> world \<Rightarrow> unit outcome" where
  "write_file path content w =
     (if path \<in> dirs w then (Inl IsADirectoryError, w)
      else (Inr (), w\<lparr>files := (files w)(path \<mapsto> content)\<rparr>))"

definition save_json :: "env \<Rightarrow> json \<Rightarrow> string \<Rightarrow> string \<Rightarrow> world \<Rightarrow> unit outcome" where
  "save_json env data folder filename w =
     sbind (makedirs folder w) (\<lambda>_ w1.
     write_file (path_join folder filename) (json_dump env data) w1)"

section \<open>Pipeline Orchestrator\<close>

text \<open>The list of dicts that is written to \<^verbatim>\<open>episodes.json\<close>.\<close>

definition episode_json :: "episode \<Rightarrow> json" where
  "episode_json e =
     JObj [(''episodeId'', case episodeId e of None \<Rightarrow> JNull | Some i \<Rightarrow> JStr i),
           (''number'', JInt (number e)),
           (''title'', JStr (title e)),
           (''streaming'', JStr (streaming e))]"

definition episodes_json :: "episode list \<Rightarrow> json" where
  "episodes_json eps = JArr (map episode_json eps)"

text \<open>
  The two branches of \<^verbatim>\<open>if info\<close>: the episode list and the folder name. \<open>t\<close> is
  \<^verbatim>\<open>meta["title"]\<close>.
\<close>

definition episodes_and_folder ::
  "env \<Rightarrow> int \<Rightarrow> string \<Rightarrow> hianime_match option \<Rightarrow> world \<Rightarrow> (episode list \<times> string) outcome" where
  "episodes_and_folder env mal_id t info w =
     (case info of
        Some i \<Rightarrow>
          sbind (fetch_episode_list env (match_id i) w) (\<lambda>episodes w1.
          (Inr (episodes, replace_spaces t @ ''-'' @ str_opt (match_id i)), w1))
      | None \<Rightarrow> (Inr ([], replace_spaces t @ ''-'' @ str_int mal_id), w))"

text \<open>The steps of \<^verbatim>\<open>fetch_full_anime\<close> from \<^verbatim>\<open>os.path.join\<close> on.\<close>

definition persist :: "env \<Rightarrow> json \<Rightarrow> episode list \<Rightarrow> string \<Rightarrow> world \<Rightarrow> unit outcome" where
  "persist env meta episodes folder_name w =
     (let folder = path_join OUTPUT_DIR folder_name in
      sbind (makedirs folder w) (\<lambda>_ w1.
      sbind (save_json env meta folder ''meta.json'' w1) (\<lambda>_ w2.
      if episodes \<noteq> [] then save_json env (episodes_json episodes) folder ''episodes.json'' w2
      else (Inr (), w2))))"

text \<open>
  \<^verbatim>\<open>fetch_full_anime(mal_id, title)\<close>; the parameter \<^verbatim>\<open>title\<close> is not used. When
  \<^verbatim>\<open>meta["title"]\<close> is not a string, \<^verbatim>\<open>query.strip()\<close> in the matcher or
  \<^verbatim>\<open>meta['title'].replace\<close> here raises \<^verbatim>\<open>AttributeError\<close>, whatever the search request gave.
\<close>

definition fetch_full_anime :: "env \<Rightarrow> int \<Rightarrow> json \<Rightarrow> world \<Rightarrow> unit outcome" where
  "fetch_full_anime env mal_id title_arg w =
     sbind (fetch_jikan_details env mal_id w) (\<lambda>meta w1.
     case meta of
       None \<Rightarrow> (Inr (), w1)
     | Some m \<Rightarrow>
         if \<not> truthy m then (Inr (), w1)
         else
           (case subscript m ''title'' of
              Inl e \<Rightarrow> (Inl e, w1)
            | Inr (JStr q) \<Rightarrow>
                sbind (resolve_hianime_id env q w1) (\<lambda>info w2.
                sbind (episodes_and_folder env mal_id q info w2) (\<lambda>(episodes, folder_name) w3.
                persist env m episodes folder_name w3))
            | Inr t \<Rightarrow>
                (Inl AttributeError,
                 snd (proxy_get_default env (search_url (str_of env t)) w1))))"

text \<open>
  The driving loop \<^verbatim>\<open>for a in all_anime: fetch_full_anime(a["mal_id"], a["title"]); time.sleep(1)\<close>
  over entries whose identifiers are integers: an exception of one step ends the loop.
\<close>

fun run_all :: "env \<Rightarrow> (int \<times> json) list \<Rightarrow> world \<Rightarrow> unit outcome" where
  "run_all env [] w = (Inr (), w)"
| "run_all env (a # as) w =
     sbind (fetch_full_anime env (fst a) (snd a) w) (\<lambda>_ w1.
     run_all env as (sleep 1 w1))"

section \<open>Concrete scenarios\<close>

text \<open>The state before the run: nothing requested, nothing written.\<close>

definition w0 :: world where
  "w0 = \<lparr>requests_log = [], slept = 0, dirs = {}, files = Map.empty\<rparr>"

text \<open>A network on which every request fails: the second by an error status, the others in transport.\<close>

definition env_down :: env where
  "env_down =
     \<lparr>http_get = (\<lambda>n url. if n = 1 then Response 503 ''busy'' else ConnError),
      json_loads = (\<lambda>s. None),
      json_dump = (\<lambda>j. []),
      select_posters = (\<lambda>s. []),
      select_episodes = (\<lambda>s. []),
      str_of = (\<lambda>j. ''None'')\<rparr>"

text \<open>
  An episode anchor with identifier \<open>i\<close>, number attribute \<open>n\<close> (if any) and name \<open>t\<close>, and a
  site whose episode endpoint answers with a payload whose markup holds the given anchors.
\<close>

definition ep_tag :: "string \<Rightarrow> string option \<Rightarrow> string \<Rightarrow> tag" where
  "ep_tag i n t =
     \<lparr>attrs = (''data-id'', i) # (case n of None \<Rightarrow> [] | Some s \<Rightarrow> [(''data-number'', s)]),
      img = None, ep_name = Some t\<rparr>"

definition env_eps :: "tag list \<Rightarrow> env" where
  "env_eps tags =
     \<lparr>http_get = (\<lambda>n url. Response 200 ''payload''),
      json_loads = (\<lambda>s. if s = ''payload''
                          then Some (JObj [(''status'', JBool True), (''html'', JStr ''markup'')])
                          else None),
      json_dump = (\<lambda>j. []),
      select_posters = (\<lambda>s. []),
      select_episodes = (\<lambda>s. if s = ''markup'' then tags else []),
      str_of = (\<lambda>j. ''None'')\<rparr>"


text \<open>
  A search-result anchor with title \<open>t\<close>, identifier \<open>i\<close> and an image whose deferred source
  is \<open>src\<close>, and a site whose search page holds the given anchors.
\<close>

definition poster_tag :: "string \<Rightarrow> string \<Rightarrow> string \<Rightarrow> tag" where
  "poster_tag t i src =
     \<lparr>attrs = [(''title'', t), (''data-id'', i)], img = Some [(''data-src'', src)], ep_name = None\<rparr>"



text \<open>
  A catalog whose detail endpoint answers every request with the given decoded body, and
  detail records: one that is complete for the fields the program subscripts, with a given
  English title, and three that lack the default title, the images and a studio's name.
\<close>

definition env_details :: "json \<Rightarrow> env" where
  "env_details body =
     \<lparr>http_get = (\<lambda>n url. Response 200 ''body''),
      json_loads = (\<lambda>s. if s = ''body'' then Some body else None),
      json_dump = (\<lambda>j. []),
      select_posters = (\<lambda>s. []),
      select_episodes = (\<lambda>s. []),
      str_of = (\<lambda>j. ''None'')\<rparr>"

definition jpg :: json where
  "jpg = JObj [(''image_url'', JStr ''https://cdn.example/1.jpg'')]"

definition record_items :: "json \<Rightarrow> (string \<times> json) list" where
  "record_items te =
     [(''mal_id'', JInt 1), (''title'', JStr ''Kaubooi Bibappu''), (''title_english'', te),
      (''score'', JFloat 35 (-2)),
      (''studios'', JArr [JObj [(''mal_id'', JInt 14), (''name'', JStr ''Sunrise'')]]),
      (''images'', JObj [(''jpg'', jpg)])]"

definition record_no_title :: json where
  "record_no_title =
     JObj [(''mal_id'', JInt 1), (''title_english'', JNull),
           (''images'', JObj [(''jpg'', jpg)])]"

definition record_no_images :: json where
  "record_no_images =
     JObj [(''mal_id'', JInt 1), (''title'', JStr ''Cowboy Bebop''), (''title_english'', JNull)]"

definition record_no_name :: json where
  "record_no_name =
     JObj [(''mal_id'', JInt 1), (''title'', JStr ''Cowboy Bebop''),
           (''studios'', JArr [JObj [(''mal_id'', JInt 14)]]),
           (''images'', JObj [(''jpg'', jpg)])]"

text \<open>The metadata that the complete record gives, with title \<open>t\<close>.\<close>

definition meta_of :: "json \<Rightarrow> json" where
  "meta_of t =
     JObj [(''mal_id'', JInt 1), (''title'', t), (''synopsis'', JNull), (''type'', JNull),
           (''episodes'', JNull), (''status'', JNull), (''rating'', JNull),
           (''score'', JFloat 35 (-2)), (''rank'', JNull), (''popularity'', JNull),
           (''members'', JNull), (''favorites'', JNull), (''duration'', JNull),
           (''season'', JNull), (''year'', JNull), (''studios'', JArr [JStr ''Sunrise'']),
           (''genres'', JArr []), (''themes'', JArr []), (''demographics'', JArr []),
           (''images'', jpg)]"



text \<open>
  A run over two catalog entries. Every request is answered, and the body of an answer is
  the address that was asked for, so that the decoder and the selectors can tell the
  answers apart: entry 1 has the English title \<^verbatim>\<open>Cowboy Bebop\<close> and a search page with the
  given anchors, its episode payload holds the given episode anchors; entry 2 is
  \<^verbatim>\<open>Trigun\<close> with an empty search page. \<open>dump_stub\<close> stands for the serializer.
\<close>

definition dump_stub :: "json \<Rightarrow> string" where
  "dump_stub j = (case j of JObj kvs \<Rightarrow> ''{...}'' | JArr xs \<Rightarrow> ''[...]'' | _ \<Rightarrow> ''null'')"

definition trigun_items :: "(string \<times> json) list" where
  "trigun_items =
     [(''mal_id'', JInt 2), (''title'', JStr ''Trigun''), (''images'', JObj [(''jpg'', jpg)])]"

definition trigun_meta :: json where
  "trigun_meta =
     JObj [(''mal_id'', JInt 2), (''title'', JStr ''Trigun''), (''synopsis'', JNull),
           (''type'', JNull), (''episodes'', JNull), (''status'', JNull), (''rating'', JNull),
           (''score'', JNull), (''rank'', JNull), (''popularity'', JNull),
           (''members'', JNull), (''favorites'', JNull), (''duration'', JNull),
           (''season'', JNull), (''year'', JNull), (''studios'', JArr []),
           (''genres'', JArr []), (''themes'', JArr []), (''demographics'', JArr []),
           (''images'', jpg)]"

definition env_site :: "tag list \<Rightarrow> tag list \<Rightarrow> env" where
  "env_site posters eps =
     \<lparr>http_get = (\<lambda>n url. Response 200 url),
      json_loads =
        (\<lambda>s. if s = details_url 1
              then Some (JObj [(''data'', JObj (record_items (JStr ''Cowboy Bebop'')))])
              else if s = details_url 2 then Some (JObj [(''data'', JObj trigun_items)])
              else if s = PROXY @ quote (episode_list_url (Some ''27''))
              then Some (JObj [(''status'', JBool True), (''html'', JStr ''markup'')])
              else None),
      json_dump = dump_stub,
      select_posters =
        (\<lambda>html. if html = PROXY @ quote (search_url ''Cowboy Bebop'') then posters else []),
      select_episodes = (\<lambda>markup. if markup = ''markup'' then eps else []),
      str_of = (\<lambda>j. ''None'')\<rparr>"

definition bebop_poster :: "tag list" where
  "bebop_poster = [poster_tag ''Cowboy Bebop'' ''27'' ''p27.jpg'']"


definition three_eps :: "tag list" where
  "three_eps = [ep_tag ''e3'' (Some ''3'') ''Three'', ep_tag ''e1'' (Some ''1'') ''One'',
                ep_tag ''e2'' (Some ''2'') ''Two'']"

definition bebop :: "int \<times> json" where
  "bebop = (1, JStr ''Cowboy Bebop'')"

definition trigun :: "int \<times> json" where
  "trigun = (2, JStr ''Trigun'')"

section \<open>Properties of the Proxied Fetcher\<close>

lemma proxy_attempts_all_failed:
  "\<forall>i<k. failed (http_get env (length (requests_log w) + i) (PROXY @ quote url)) \<Longrightarrow>
   proxy_attempts env url k d w =
     (None, w\<lparr>requests_log := requests_log w @ replicate k (PROXY @ quote url),
              slept := slept w + k * d\<rparr>)"
proof (induction k arbitrary: w)
  case 0
  then show ?case by simp
next
  case (Suc k)
  let ?t = "PROXY @ quote url"
  let ?w1 = "sleep d (w\<lparr>requests_log := requests_log w @ [?t]\<rparr>)"
  from Suc.prems have f0: "failed (http_get env (length (requests_log w)) ?t)"
    by (metis add.right_neutral zero_less_Suc)
  have rest: "\<forall>i<k. failed (http_get env (length (requests_log ?w1) + i) ?t)"
    using Suc.prems by (auto simp: sleep_def)
  have step: "proxy_attempts env url (Suc k) d w = proxy_attempts env url k d ?w1"
    using f0 by (cases "http_get env (length (requests_log w)) ?t") (simp_all add: send_def)
  show ?case
    unfolding step Suc.IH [OF rest]
    by (simp add: sleep_def replicate_app_Cons_same)
qed

text \<open>
  C7. When each of the three attempts fails (the request raises, or the status is an error
  status), \<^verbatim>\<open>proxy_get\<close> with the default retry count returns \<^verbatim>\<open>None\<close> and does not raise; it
  has sent the proxied request exactly three times, and slept after each.
\<close>

theorem proxy_get_three_failures:
  assumes "\<forall>i<3. failed (http_get env (length (requests_log w) + i) (PROXY @ quote url))"
  shows "proxy_get_default env url w =
           (None, w\<lparr>requests_log := requests_log w @ replicate 3 (PROXY @ quote url),
                    slept := slept w + 6\<rparr>)"
  using proxy_attempts_all_failed [OF assms, where d = 2]
  by (simp add: proxy_get_default_def proxy_get_def)

theorem proxy_get_three_failures_witness:
  "proxy_get_default env_down ''https://hianimez.is/search?keyword=Naruto'' w0 =
     (None, w0\<lparr>requests_log :=
                  replicate 3 (PROXY @ ''https%3A%2F%2Fhianimez.is%2Fsearch%3Fkeyword%3DNaruto''),
                slept := 6\<rparr>)"
proof -
  have q: "quote ''https://hianimez.is/search?keyword=Naruto''
             = ''https%3A%2F%2Fhianimez.is%2Fsearch%3Fkeyword%3DNaruto''"
    by (simp add: quote_def quote_char_def is_upper_def is_lower_def is_digit_def hex_digit_def)
  have h: "\<forall>i<3. failed (http_get env_down (length (requests_log w0) + i)
                 (PROXY @ quote ''https://hianimez.is/search?keyword=Naruto''))"
    by (simp add: env_down_def w0_def raise_for_status_def)
  show ?thesis
    using proxy_get_three_failures [OF h] by (simp add: q w0_def)
qed

section \<open>Properties of the Episode Lister\<close>

lemma rbind_Inr_iff: "rbind m f = Inr y \<longleftrightarrow> (\<exists>x. m = Inr x \<and> f x = Inr y)"
  by (cases m) (simp_all add: rbind_def)

lemma rbind_Inl_iff: "rbind m f = Inl e \<longleftrightarrow> (m = Inl e \<or> (\<exists>x. m = Inr x \<and> f x = Inl e))"
  by (cases m) (simp_all add: rbind_def)


text \<open>Facts for evaluating the model on concrete inputs.\<close>

lemma proxy_get_default_unfold:
  "proxy_get_default env url w = proxy_attempts env url (Suc (Suc (Suc 0))) 2 w"
  by (simp add: proxy_get_default_def proxy_get_def numeral_3_eq_3)

lemmas eval_strings = strip_def is_space_def is_digit_def is_upper_def is_lower_def
  lower_def lower_char_def str_opt_def

lemmas eval_proxy = proxy_get_default_unfold send_def sleep_def raise_for_status_def

lemmas eval_episodes = fetch_episode_list_def get_def rbind_def episode_of_def number_of_def
  int_of_str_def unsigned_value_def digit_value_def

text \<open>
  The part of the number extraction that defaults: a missing or empty attribute gives 0, and
  a decimal numeral gives its value.
\<close>

lemma number_of_missing:
  "map_of (attrs a) ''data-number'' = None \<Longrightarrow> number_of a = Inr 0"
  by (simp add: number_of_def)

lemma number_of_empty:
  "map_of (attrs a) ''data-number'' = Some [] \<Longrightarrow> number_of a = Inr 0"
  by (simp add: number_of_def)

lemma number_of_examples:
  "number_of (ep_tag ''e'' (Some ''12'') ''t'') = Inr 12"
  "number_of (ep_tag ''e'' (Some '' 7 '') ''t'') = Inr 7"
  "number_of (ep_tag ''e'' (Some ''-3'') ''t'') = Inr (- 3)"
  "number_of (ep_tag ''e'' (Some ''1.5'') ''t'') = Inl ValueError"
  "number_of (ep_tag ''e'' (Some ''abc'') ''t'') = Inl ValueError"
  by (simp_all add: ep_tag_def eval_episodes eval_strings)

text \<open>
  C4. The claim says that a number attribute that is not an integer numeral gives the number
  0 and that the extraction never raises. On the code \<^verbatim>\<open>int("abc")\<close> raises \<^verbatim>\<open>ValueError\<close>,
  which nothing catches: for a payload whose only episode anchor has
  \<^verbatim>\<open>data-number="abc"\<close> the exception leaves \<^verbatim>\<open>fetch_episode_list\<close>.
\<close>

theorem fetch_episode_list_non_numeric_raises:
  "fetch_episode_list (env_eps [ep_tag ''e1'' (Some ''abc'') ''One'']) (Some ''100'') w0
     = (Inl ValueError, w0\<lparr>requests_log := [PROXY @ quote (episode_list_url (Some ''100''))]\<rparr>)"
  by (simp add: eval_episodes eval_proxy eval_strings env_eps_def w0_def ep_tag_def)




section \<open>Properties of the Cross-Reference Matcher\<close>


text \<open>Without content from the proxy there is no match.\<close>

lemma resolve_hianime_id_no_content:
  "proxy_get_default env (search_url query) w = (r, w1) \<Longrightarrow> r = None \<or> r = Some [] \<Longrightarrow>
   resolve_hianime_id env query w = (Inr None, w1)"
  by (auto simp: resolve_hianime_id_def)

text \<open>The record built from an anchor that has a title, and an image source if it has an image.\<close>

lemma match_of_complete:
  "map_of (attrs a) ''title'' = Some t \<Longrightarrow> img a = None \<or> (\<exists>i p. img a = Some i \<and> map_of i ''data-src'' = Some p) \<Longrightarrow>
   \<exists>m. match_of a = Inr m \<and> match_id m = map_of (attrs a) ''data-id'' \<and> match_title m = strip t"
  by (auto simp: match_of_def rbind_def)



section \<open>Properties of the Detail Resolver\<close>

lemmas eval_details = fetch_jikan_details_def get_json_def send_def project_def canonical_title_def
  names_of_def get_def rbind_def

text \<open>What the \<^verbatim>\<open>try\<close> block catches: a failed request, a body that is not JSON, no \<^verbatim>\<open>data\<close>.\<close>

lemma fetch_jikan_details_no_result:
  "get_json env (details_url mal_id) w = (r, w1) \<Longrightarrow>
   r = None \<or> (\<exists>res e. r = Some res \<and> subscript res ''data'' = Inl e) \<Longrightarrow>
   fetch_jikan_details env mal_id w = (Inr None, w1)"
  by (auto simp: fetch_jikan_details_def)

lemma project_title:
  assumes "project mal_id details = Inr meta"
  shows "\<exists>t. canonical_title details = Inr t \<and> subscript meta ''title'' = Inr t"
proof -
  from assms obtain t where t: "canonical_title details = Inr t"
    unfolding project_def by (cases "canonical_title details") (simp_all add: rbind_def)
  from assms have "\<exists>rest. meta = JObj ((''mal_id'', JInt mal_id) # (''title'', t) # rest)"
    unfolding project_def t by (auto simp: rbind_Inr_iff)
  then show ?thesis using t by auto
qed

lemma canonical_title_cases:
  assumes "canonical_title details = Inr t"
  shows "\<exists>kvs. details = JObj kvs \<and>
      (let te = (case map_of kvs ''title_english'' of None \<Rightarrow> JNull | Some v \<Rightarrow> v)
       in if truthy te then t = te else map_of kvs ''title'' = Some t)"
  using assms
  by (cases details)
     (auto simp: canonical_title_def get_def rbind_Inr_iff split: option.splits if_splits)

text \<open>
  C3. The claim says that \<^verbatim>\<open>fetch_jikan_details\<close> never lets an exception out, also for a
  response that lacks expected fields. On the code the dict is built after the \<^verbatim>\<open>try\<close>
  block: a record with no default title (and no English title), a record with no images and
  a record with a studio that has no name each raise \<^verbatim>\<open>KeyError\<close>.
\<close>

theorem fetch_jikan_details_missing_field_raises:
  "fetch_jikan_details (env_details (JObj [(''data'', record_no_title)])) 1 w0
     = (Inl KeyError, w0\<lparr>requests_log := [details_url 1]\<rparr>)
   \<and> fetch_jikan_details (env_details (JObj [(''data'', record_no_images)])) 1 w0
     = (Inl KeyError, w0\<lparr>requests_log := [details_url 1]\<rparr>)
   \<and> fetch_jikan_details (env_details (JObj [(''data'', record_no_name)])) 1 w0
     = (Inl KeyError, w0\<lparr>requests_log := [details_url 1]\<rparr>)"
  by (simp add: eval_details env_details_def w0_def record_no_title_def record_no_images_def
        record_no_name_def)

text \<open>
  C10. In the metadata that \<^verbatim>\<open>fetch_jikan_details\<close> returns for a detail record, the title is
  the English title when that is there and true in Python's sense, and the default title in
  every other case: when the English title is absent and when it is a false value, such as
  \<^verbatim>\<open>null\<close> and the empty string. (A string is false exactly when it is empty.)
\<close>

theorem fetch_jikan_details_title_fallback:
  assumes "get_json env (details_url mal_id) w = (Some res, w1)"
    and "subscript res ''data'' = Inr (JObj kvs)"
    and "fetch_jikan_details env mal_id w = (Inr (Some meta), w')"
  shows "subscript meta ''title'' =
           (case map_of kvs ''title_english'' of
              None \<Rightarrow> subscript (JObj kvs) ''title''
            | Some te \<Rightarrow> if truthy te then Inr te else subscript (JObj kvs) ''title'')"
proof -
  from assms have "project mal_id (JObj kvs) = Inr meta"
    by (auto simp: fetch_jikan_details_def rbind_Inr_iff)
  then obtain t where t: "canonical_title (JObj kvs) = Inr t" "subscript meta ''title'' = Inr t"
    using project_title by blast
  from canonical_title_cases [OF t(1)] t(2) show ?thesis
    by (auto simp: Let_def split: option.splits if_splits)
qed

lemma details_empty_english:
  "fetch_jikan_details (env_details (JObj [(''data'', JObj (record_items (JStr [])))])) 1 w0 =
     (Inr (Some (meta_of (JStr ''Kaubooi Bibappu''))), w0\<lparr>requests_log := [details_url 1]\<rparr>)"
  by (simp add: eval_details env_details_def w0_def record_items_def meta_of_def)

lemma details_null_english:
  "fetch_jikan_details (env_details (JObj [(''data'', JObj (record_items JNull))])) 1 w0 =
     (Inr (Some (meta_of (JStr ''Kaubooi Bibappu''))), w0\<lparr>requests_log := [details_url 1]\<rparr>)"
  by (simp add: eval_details env_details_def w0_def record_items_def meta_of_def)

lemma details_with_english:
  "fetch_jikan_details
     (env_details (JObj [(''data'', JObj (record_items (JStr ''Cowboy Bebop'')))])) 1 w0 =
     (Inr (Some (meta_of (JStr ''Cowboy Bebop''))), w0\<lparr>requests_log := [details_url 1]\<rparr>)"
  by (simp add: eval_details env_details_def w0_def record_items_def meta_of_def)

text \<open>An empty English title gives the default title, an English title gives itself.\<close>

theorem fetch_jikan_details_title_fallback_witness:
  "fetch_jikan_details (env_details (JObj [(''data'', JObj (record_items (JStr [])))])) 1 w0 =
     (Inr (Some (meta_of (JStr ''Kaubooi Bibappu''))), w0\<lparr>requests_log := [details_url 1]\<rparr>)
   \<and> subscript (meta_of (JStr ''Kaubooi Bibappu'')) ''title'' = Inr (JStr ''Kaubooi Bibappu'')
   \<and> fetch_jikan_details
       (env_details (JObj [(''data'', JObj (record_items (JStr ''Cowboy Bebop'')))])) 1 w0 =
     (Inr (Some (meta_of (JStr ''Cowboy Bebop''))), w0\<lparr>requests_log := [details_url 1]\<rparr>)
   \<and> subscript (meta_of (JStr ''Cowboy Bebop'')) ''title'' = Inr (JStr ''Cowboy Bebop'')"
proof -
  have g: "get_json (env_details (JObj [(''data'', JObj (record_items te))])) (details_url 1) w0
      = (Some (JObj [(''data'', JObj (record_items te))]), w0\<lparr>requests_log := [details_url 1]\<rparr>)"
    for te
    by (simp add: get_json_def send_def env_details_def w0_def)
  have d: "subscript (JObj [(''data'', JObj (record_items te))]) ''data''
      = Inr (JObj (record_items te))" for te
    by simp
  show ?thesis
    using fetch_jikan_details_title_fallback [OF g d details_empty_english]
      fetch_jikan_details_title_fallback [OF g d details_with_english]
      details_empty_english details_with_english
    by (simp add: record_items_def)
qed

section \<open>Properties of the Catalog Enumerator\<close>












section \<open>Properties of the Persistence Writer\<close>

lemma sbind_Inr_iff:
  "sbind m f = (Inr y, w') \<longleftrightarrow> (\<exists>x w1. m = (Inr x, w1) \<and> f x w1 = (Inr y, w'))"
  by (cases m; cases "fst m") (auto simp: sbind_def)


text \<open>
  C8. When \<^verbatim>\<open>save_json\<close> has written a structure, a second call with the same arguments
  succeeds and leaves the world as it is: the file holds the same text, the serialization of
  the structure.
\<close>

theorem save_json_idempotent:
  assumes "save_json env data folder filename w = (Inr (), w1)"
  shows "save_json env data folder filename w1 = (Inr (), w1)
         \<and> files w1 (path_join folder filename) = Some (json_dump env data)"
  using assms
  by (auto simp: save_json_def sbind_Inr_iff makedirs_def write_file_def insert_absorb
           split: if_splits)

theorem save_json_idempotent_witness:
  "save_json (env_site [] []) trigun_meta ''anime_data/Trigun-2'' ''meta.json'' w0 =
     (Inr (), w0\<lparr>dirs := {''anime_data/Trigun-2''},
                 files := [''anime_data/Trigun-2/meta.json'' \<mapsto> ''{...}'']\<rparr>)
   \<and> save_json (env_site [] []) trigun_meta ''anime_data/Trigun-2'' ''meta.json''
       (w0\<lparr>dirs := {''anime_data/Trigun-2''},
           files := [''anime_data/Trigun-2/meta.json'' \<mapsto> ''{...}'']\<rparr>) =
     (Inr (), w0\<lparr>dirs := {''anime_data/Trigun-2''},
                 files := [''anime_data/Trigun-2/meta.json'' \<mapsto> ''{...}'']\<rparr>)"
proof -
  have first: "save_json (env_site [] []) trigun_meta ''anime_data/Trigun-2'' ''meta.json'' w0 =
     (Inr (), w0\<lparr>dirs := {''anime_data/Trigun-2''},
                 files := [''anime_data/Trigun-2/meta.json'' \<mapsto> ''{...}'']\<rparr>)"
    by (simp add: save_json_def sbind_def makedirs_def write_file_def path_join_def
          env_site_def dump_stub_def trigun_meta_def w0_def)
  from save_json_idempotent [OF first] first show ?thesis by simp
qed

section \<open>Properties of the Pipeline Orchestrator\<close>








lemma episodes_and_folder_no_match:
  "episodes_and_folder env mal_id t None w = (Inr ([], replace_spaces t @ ''-'' @ str_int mal_id), w)"
  by (simp add: episodes_and_folder_def)




text \<open>The two entries of the run, one by one and in the driving loop.\<close>

lemmas eval_urls = details_url_def search_url_def episode_list_url_def PROXY_def
  HIANIME_HOST_def JIKAN_BASE_def quote_def quote_char_def hex_digit_def str_int_def

lemmas eval_steps = fetch_full_anime_def sbind_def resolve_hianime_id_def
  episodes_and_folder_def persist_def save_json_def makedirs_def write_file_def path_join_def
  OUTPUT_DIR_def replace_spaces_def title_or_empty_def match_of_def dump_stub_def





lemma site_run_all:
  "run_all (env_site bebop_poster three_eps) [bebop, trigun] w0 =
     (Inr (),
      w0\<lparr>requests_log :=
           [details_url 1, PROXY @ quote (search_url ''Cowboy Bebop''),
            PROXY @ quote (episode_list_url (Some ''27'')),
            details_url 2, PROXY @ quote (search_url ''Trigun'')],
         slept := 2,
         dirs := {''anime_data/Cowboy_Bebop-27'', ''anime_data/Trigun-2''},
         files := [''anime_data/Cowboy_Bebop-27/meta.json'' \<mapsto> ''{...}'',
                   ''anime_data/Cowboy_Bebop-27/episodes.json'' \<mapsto> ''[...]'',
                   ''anime_data/Trigun-2/meta.json'' \<mapsto> ''{...}'']\<rparr>)"
  by (simp add: eval_steps eval_details eval_episodes eval_proxy eval_strings eval_urls
        env_site_def w0_def record_items_def trigun_items_def bebop_poster_def three_eps_def
        poster_tag_def ep_tag_def episodes_json_def bebop_def trigun_def jpg_def insert_commute)







end
